theory Spec2Isabelle
  imports Complex_Main
begin

section \<open>SiEPIC core: Net, Pin and Component\<close>

text \<open>
  A shallow embedding of the classes \<^verbatim>\<open>Net\<close>, \<^verbatim>\<open>Pin\<close> and \<^verbatim>\<open>Component\<close> of
  \<^verbatim>\<open>SiEPIC/core.py\<close>. Python exceptions are values of \<open>error\<close> in a sum type, objects
  with mutable fields are records that the operations return updated, and the list
  objects that Components share are kept in an explicit heap.
\<close>

datatype error = AttributeError | IndexError | ValueError | InvalidOperation | Overflow

subsection \<open>Python strings\<close>

text \<open>
  A Python \<^verbatim>\<open>str\<close> is modelled as a \<open>string\<close> whose characters are the code points
  0 to 255 (Latin-1). The functions below are the string operations that
  \<^verbatim>\<open>params_dict\<close> and \<^verbatim>\<open>has_model\<close> call, as Python 3 defines them.
\<close>

fun py_split :: "char \<Rightarrow> string \<Rightarrow> string list" where
  \<comment> \<open>\<^verbatim>\<open>s.split(sep)\<close> for a separator of one character: every occurrence splits,
      so that adjacent separators give empty pieces and \<^verbatim>\<open>''.split(sep) == ['']\<close>.\<close>
  "py_split sep [] = [[]]"
| "py_split sep (x # xs) =
     (if x = sep then [] # py_split sep xs
      else (case py_split sep xs of
              [] \<Rightarrow> [[x]]
            | w # ws \<Rightarrow> (x # w) # ws))"

definition py_replace :: "char \<Rightarrow> string \<Rightarrow> string \<Rightarrow> string" where
  \<comment> \<open>\<^verbatim>\<open>s.replace(old, new)\<close> for \<^verbatim>\<open>old\<close> of one character.\<close>
  "py_replace old new s = concat (map (\<lambda>c. if c = old then new else [c]) s)"

definition lower_char :: "char \<Rightarrow> char" where
  "lower_char c =
     (let n = (of_char c :: nat)
      in if (65 \<le> n \<and> n \<le> 90) \<or> (192 \<le> n \<and> n \<le> 222 \<and> n \<noteq> 215)
         then char_of (n + 32) else c)"

definition lower :: "string \<Rightarrow> string" where
  \<comment> \<open>\<^verbatim>\<open>s.lower()\<close>\<close>
  "lower s = map lower_char s"

definition is_digit :: "char \<Rightarrow> bool" where
  "is_digit c = (let n = (of_char c :: nat) in 48 \<le> n \<and> n \<le> 57)"

definition digit_val :: "char \<Rightarrow> nat" where
  "digit_val c = (of_char c :: nat) - 48"

subsection \<open>Python's numeric built-ins\<close>

text \<open>
  \<^verbatim>\<open>int\<close>, \<^verbatim>\<open>Decimal\<close>, the product of two Decimals and \<^verbatim>\<open>float\<close> belong to the
  interpreter and its \<^verbatim>\<open>decimal\<close> module. \<^verbatim>\<open>params_dict\<close> only calls them, so they are
  parameters of the model, over types of Decimals and of floats left open; each call
  returns a value or raises.
\<close>

record ('d, 'f) builtins =
  py_int :: "string \<Rightarrow> error + int"            \<comment> \<open>\<^verbatim>\<open>int(s)\<close>\<close>
  Decimal :: "string \<Rightarrow> error + 'd"           \<comment> \<open>\<^verbatim>\<open>Decimal(s)\<close>\<close>
  decimal_mul :: "'d \<Rightarrow> 'd \<Rightarrow> error + 'd"    \<comment> \<open>\<^verbatim>\<open>a * b\<close>\<close>
  py_float :: "'d \<Rightarrow> error + 'f"              \<comment> \<open>\<^verbatim>\<open>float(d)\<close>\<close>

definition and_then :: "error + 'a \<Rightarrow> ('a \<Rightarrow> error + 'b) \<Rightarrow> error + 'b" where
  \<comment> \<open>one call on the result of another: an exception of the first ends the chain\<close>
  "and_then r f = (case r of Inl e \<Rightarrow> Inl e | Inr x \<Rightarrow> f x)"

subsection \<open>Parameter values and dictionaries\<close>

text \<open>
  The values that \<^verbatim>\<open>params_dict\<close> stores: an \<^verbatim>\<open>int\<close>, a \<^verbatim>\<open>float\<close> or a \<^verbatim>\<open>str\<close>.
\<close>

datatype 'f pvalue = PInt int | PFloat 'f | PStr string

type_synonym 'f pdict = "(string \<times> 'f pvalue) list"

fun dict_set :: "'k \<Rightarrow> 'v \<Rightarrow> ('k \<times> 'v) list \<Rightarrow> ('k \<times> 'v) list" where
  \<comment> \<open>\<^verbatim>\<open>d[k] = v\<close>: a present key keeps its place and takes the new value\<close>
  "dict_set k v [] = [(k, v)]"
| "dict_set k v ((k', v') # d) =
     (if k' = k then (k, v) # d else (k', v') # dict_set k v d)"

subsection \<open>The host geometry and the module globals\<close>

text \<open>
  The geometry classes (\<^verbatim>\<open>pya.Point\<close>, \<^verbatim>\<open>Path\<close>, \<^verbatim>\<open>Box\<close>, \<^verbatim>\<open>Polygon\<close>, the
  transformations) belong to the layout editor, and \<^verbatim>\<open>angle_vector\<close> and
  \<^verbatim>\<open>get_points\<close> to modules of the package other than \<^verbatim>\<open>core.py\<close>. The classes of
  \<^verbatim>\<open>core.py\<close> only call them, so they are parameters of the model: a record of the
  operations the code uses, over types of points, paths, boxes, polygons and
  transformations left open.
\<close>

record ('pt, 'dpt, 'path, 'box, 'poly, 'trans) host =
  get_points :: "'path \<Rightarrow> 'pt list"            \<comment> \<open>\<^verbatim>\<open>path.get_points()\<close>\<close>
  pt_add :: "'pt \<Rightarrow> 'pt \<Rightarrow> 'pt"                 \<comment> \<open>\<^verbatim>\<open>p + q\<close>\<close>
  pt_sub :: "'pt \<Rightarrow> 'pt \<Rightarrow> 'pt"                 \<comment> \<open>\<^verbatim>\<open>p - q\<close>\<close>
  pt_mul :: "'pt \<Rightarrow> real \<Rightarrow> 'pt"                \<comment> \<open>\<^verbatim>\<open>p * f\<close>\<close>
  angle_vector :: "'pt \<Rightarrow> real"                 \<comment> \<open>\<^verbatim>\<open>angle_vector(v)\<close>\<close>
  box_center :: "'box \<Rightarrow> 'pt"                    \<comment> \<open>\<^verbatim>\<open>box.center()\<close>\<close>
  bbox :: "'poly \<Rightarrow> 'box"                         \<comment> \<open>\<^verbatim>\<open>polygon.bbox()\<close>\<close>
  path_transformed :: "'path \<Rightarrow> 'trans \<Rightarrow> 'path"   \<comment> \<open>\<^verbatim>\<open>path.transformed(t)\<close>\<close>
  polygon_transformed :: "'poly \<Rightarrow> 'trans \<Rightarrow> 'poly" \<comment> \<open>\<^verbatim>\<open>polygon.transformed(t)\<close>\<close>
  to_s :: "'pt \<Rightarrow> string"                         \<comment> \<open>\<^verbatim>\<open>p.to_s()\<close>\<close>
  to_dtype :: "'pt \<Rightarrow> real \<Rightarrow> 'dpt"               \<comment> \<open>\<^verbatim>\<open>p.to_dtype(dbu)\<close>\<close>

datatype pin_types = OPTICAL | ELECTRICAL | OPTICALIO

text \<open>
  \<^verbatim>\<open>class Net\<close>: \<open>net_pins\<close> holds handles of the Pins of the net (back links).
\<close>

record net =
  net_idx :: "int option"
  net_type :: "pin_types option"
  net_pins :: "nat list option"

definition Net_init :: "int option \<Rightarrow> pin_types option \<Rightarrow> nat list option \<Rightarrow> net" where
  "Net_init idx' type' pins' = \<lparr>net_idx = idx', net_type = type', net_pins = pins'\<rparr>"

text \<open>
  The names that \<^verbatim>\<open>core.py\<close> imports from \<^verbatim>\<open>_globals\<close> and \<^verbatim>\<open>utils\<close>: the registry of
  compact models \<^verbatim>\<open>INTC_ELEMENTS\<close> (a set of keys, tested for membership), the net of
  the disconnected pins, and the entries \<^verbatim>\<open>technology_name\<close> and \<^verbatim>\<open>dbu\<close> of the
  active technology, as \<^verbatim>\<open>get_technology()\<close> and \<^verbatim>\<open>get_layout_variables()\<close> return it.
\<close>

record globals =
  INTC_ELEMENTS :: "string set"
  NET_DISCONNECTED :: net
  technology_name :: string
  dbu :: real

subsection \<open>Pin\<close>

text \<open>
  \<^verbatim>\<open>class Pin\<close>. An attribute that \<^verbatim>\<open>__init__\<close> may leave unassigned has an option
  type whose \<open>None\<close> is "no such attribute": \<open>pin_center\<close>, and \<open>pin_box\<close> (whose
  \<open>Some None\<close> is the attribute holding \<^verbatim>\<open>None\<close>). \<open>pin_component\<close> is a handle of
  the owning Component.
\<close>

record ('pt, 'path, 'box, 'poly) pin =
  pin_type :: "pin_types option"
  pin_net :: net
  pin_name :: "string option"
  pin_component :: "nat option"
  pin_path :: "'path option"
  pin_polygon :: "'poly option"
  pin_center :: "'pt option"
  pin_rotation :: real
  pin_box :: "'box option option"

definition invalid_pin_message :: string where
  "invalid_pin_message = ''SiEPIC-Tools: class Pin():__init__: detected invalid Pin''"

definition Pin_init_box ::
  "('pt, 'dpt, 'path, 'box, 'poly, 'trans) host \<Rightarrow> 'box option \<Rightarrow> 'poly option \<Rightarrow>
   ('pt, 'path, 'box, 'poly) pin \<Rightarrow> ('pt, 'path, 'box, 'poly) pin" where
  \<comment> \<open>the end of \<^verbatim>\<open>Pin.__init__\<close>, from \<^verbatim>\<open>self.box = box\<close> on\<close>
  "Pin_init_box g box' polygon' self =
     (let s1 = self\<lparr>pin_box := Some box'\<rparr>;
          s2 = (case box' of
                  None \<Rightarrow> s1
                | Some b \<Rightarrow> s1\<lparr>pin_center := Some (box_center g b)\<rparr>)
      in case polygon' of
           None \<Rightarrow> s2
         | Some q \<Rightarrow> s2\<lparr>pin_rotation := 0, pin_center := Some (box_center g (bbox g q))\<rparr>)"

definition Pin_init ::
  "('pt, 'dpt, 'path, 'box, 'poly, 'trans) host \<Rightarrow> globals \<Rightarrow>
   'path option \<Rightarrow> pin_types option \<Rightarrow> 'box option \<Rightarrow> 'poly option \<Rightarrow>
   nat option \<Rightarrow> net option \<Rightarrow> string option \<Rightarrow>
   error + (('pt, 'path, 'box, 'poly) pin \<times> string list)" where
  \<comment> \<open>\<^verbatim>\<open>Pin(path, _type, box, polygon, component, net, pin_name)\<close>: the new Pin and
      the lines printed. An argument left out is \<open>None\<close>.\<close>
  "Pin_init g env path' type' box' polygon' component' net' pin_name' =
     (let self = \<lparr>pin_type = type',
                  pin_net = (case net' of Some n \<Rightarrow> n | None \<Rightarrow> NET_DISCONNECTED env),
                  pin_name = pin_name',
                  pin_component = component',
                  pin_path = path',
                  pin_polygon = polygon',
                  pin_center = None,
                  pin_rotation = 0,
                  pin_box = None\<rparr>
      in case path' of
           Some p \<Rightarrow>
             (let pts = get_points g p
              in if length pts = 2 then
                   Inr (Pin_init_box g box' polygon'
                          (self\<lparr>pin_center := Some (pt_mul g (pt_add g (pts ! 0) (pts ! 1)) (1 / 2)),
                                pin_rotation := angle_vector g (pt_sub g (pts ! 1) (pts ! 0))\<rparr>),
                        [])
                 else Inr (self\<lparr>pin_rotation := 0\<rparr>, [invalid_pin_message]))
         | None \<Rightarrow> Inr (Pin_init_box g box' polygon' (self\<lparr>pin_rotation := 0\<rparr>), []))"

definition transform_path ::
  "('pt, 'dpt, 'path, 'box, 'poly, 'trans) host \<Rightarrow> 'trans \<Rightarrow>
   ('pt, 'path, 'box, 'poly) pin \<Rightarrow> error + ('pt, 'path, 'box, 'poly) pin" where
  \<comment> \<open>the branch \<^verbatim>\<open>if self.path:\<close> of \<^verbatim>\<open>Pin.transform\<close>; \<^verbatim>\<open>pts[0]\<close> and \<^verbatim>\<open>pts[1]\<close>
      raise on a path of fewer than two points\<close>
  "transform_path g t self =
     (case pin_path self of
        None \<Rightarrow> Inr self
      | Some p \<Rightarrow>
          (let p' = path_transformed g p t;
               pts = get_points g p'
           in if length pts < 2 then Inl IndexError
              else Inr (self\<lparr>pin_path := Some p',
                             pin_center := Some (pt_mul g (pt_add g (pts ! 0) (pts ! 1)) (1 / 2)),
                             pin_rotation := angle_vector g (pt_sub g (pts ! 1) (pts ! 0))\<rparr>)))"

definition transform_polygon ::
  "('pt, 'dpt, 'path, 'box, 'poly, 'trans) host \<Rightarrow> 'trans \<Rightarrow>
   ('pt, 'path, 'box, 'poly) pin \<Rightarrow> ('pt, 'path, 'box, 'poly) pin" where
  \<comment> \<open>the branch \<^verbatim>\<open>if self.polygon:\<close> of \<^verbatim>\<open>Pin.transform\<close>\<close>
  "transform_polygon g t self =
     (case pin_polygon self of
        None \<Rightarrow> self
      | Some q \<Rightarrow>
          (let q' = polygon_transformed g q t
           in self\<lparr>pin_polygon := Some q',
                   pin_center := Some (box_center g (bbox g q')),
                   pin_rotation := 0\<rparr>))"

definition transform ::
  "('pt, 'dpt, 'path, 'box, 'poly, 'trans) host \<Rightarrow> 'trans \<Rightarrow>
   ('pt, 'path, 'box, 'poly) pin \<Rightarrow> error + ('pt, 'path, 'box, 'poly) pin" where
  \<comment> \<open>\<^verbatim>\<open>pin.transform(trans)\<close>: the Pin is updated in place and returned, so the
      result is the Pin after the call\<close>
  "transform g t self =
     (case transform_path g t self of
        Inl e \<Rightarrow> Inl e
      | Inr s1 \<Rightarrow> Inr (transform_polygon g t s1))"

subsection \<open>List objects\<close>

text \<open>
  A Python list is an object: two names of one list see each other's appends. The
  heap maps the address of a list object to its elements; a Component holds the
  address of its \<^verbatim>\<open>pins\<close> list. The three lists \<^verbatim>\<open>[]\<close> that stand as default values in
  the signature of \<^verbatim>\<open>Component.__init__\<close> are created once, when the \<^verbatim>\<open>def\<close> is
  executed: they are the objects at the addresses \<open>default_pins\<close>, \<open>default_epins\<close>
  and \<open>default_nets\<close>.
\<close>

type_synonym 'p heap = "nat \<Rightarrow> 'p list"

definition default_pins :: nat where "default_pins = 0"
definition default_epins :: nat where "default_epins = 1"
definition default_nets :: nat where "default_nets = 2"

definition empty_heap :: "'p heap" where
  "empty_heap = (\<lambda>a. [])"

definition list_append :: "nat \<Rightarrow> 'p \<Rightarrow> 'p heap \<Rightarrow> 'p heap" where
  \<comment> \<open>\<^verbatim>\<open>l.append(x)\<close> on the list object at address \<open>a\<close>\<close>
  "list_append a x h = h(a := h a @ [x])"

subsection \<open>Component\<close>

text \<open>
  \<^verbatim>\<open>class Component\<close>. \<open>instance_c\<close> and \<open>trans_c\<close> are the attributes \<^verbatim>\<open>instance\<close> and
  \<^verbatim>\<open>trans\<close>; \<open>instance_c\<close> and \<open>cell\<close> are handles of objects of the layout.
\<close>

record ('pt, 'dpt, 'poly, 'trans) component =
  idx :: "int option"
  component :: "string option"
  instance_c :: "nat option"
  trans_c :: "'trans option"
  library :: "string option"
  pins :: nat
  npins :: nat
  params :: "string option"
  polygon :: "'poly option"
  DevRec_polygon :: "'poly option"
  center :: 'pt
  cell :: "nat option"
  basic_name :: "string option"
  cellName :: "string option"
  Dcenter :: 'dpt

text \<open>The keyword arguments of \<^verbatim>\<open>Component(...)\<close>; \<open>None\<close> is an argument left out.\<close>

record ('poly, 'trans) component_args =
  arg_idx :: "int option"
  arg_component :: "string option"
  arg_instance :: "nat option"
  arg_trans :: "'trans option"
  arg_library :: "string option"
  arg_params :: "string option"
  arg_pins :: "nat option"
  arg_epins :: "nat option"
  arg_nets :: "nat option"
  arg_polygon :: "'poly option"
  arg_DevRec_polygon :: "'poly option"
  arg_cell :: "nat option"
  arg_basic_name :: "string option"
  arg_cellName :: "string option"

definition no_args :: "('poly, 'trans) component_args" where
  "no_args = \<lparr>arg_idx = None, arg_component = None, arg_instance = None, arg_trans = None,
              arg_library = None, arg_params = None, arg_pins = None, arg_epins = None,
              arg_nets = None, arg_polygon = None, arg_DevRec_polygon = None,
              arg_cell = None, arg_basic_name = None, arg_cellName = None\<rparr>"

definition Component_init ::
  "('pt, 'dpt, 'path, 'box, 'poly, 'trans) host \<Rightarrow> globals \<Rightarrow>
   ('pt, 'path, 'box, 'poly) pin heap \<Rightarrow> ('poly, 'trans) component_args \<Rightarrow>
   error + ('pt, 'dpt, 'poly, 'trans) component" where
  \<comment> \<open>\<^verbatim>\<open>Component(...)\<close>. \<^verbatim>\<open>epins\<close> and \<^verbatim>\<open>nets\<close> are accepted and not stored;
      \<^verbatim>\<open>polygon.bbox()\<close> raises when \<^verbatim>\<open>polygon\<close> is \<^verbatim>\<open>None\<close>.\<close>
  "Component_init g env h a =
     (let pins' = (case arg_pins a of None \<Rightarrow> default_pins | Some l \<Rightarrow> l)
      in case arg_polygon a of
           None \<Rightarrow> Inl AttributeError
         | Some q \<Rightarrow>
             Inr \<lparr>idx = arg_idx a,
                  component = arg_component a,
                  instance_c = arg_instance a,
                  trans_c = arg_trans a,
                  library = arg_library a,
                  pins = pins',
                  npins = length (h pins'),
                  params = arg_params a,
                  polygon = Some q,
                  DevRec_polygon = arg_DevRec_polygon a,
                  center = box_center g (bbox g q),
                  cell = arg_cell a,
                  basic_name = arg_basic_name a,
                  cellName = arg_cellName a,
                  Dcenter = to_dtype g (box_center g (bbox g q)) (dbu env)\<rparr>)"

definition assign_polygon ::
  "'poly option \<Rightarrow> ('pt, 'dpt, 'poly, 'trans) component \<Rightarrow> ('pt, 'dpt, 'poly, 'trans) component" where
  \<comment> \<open>the assignment \<^verbatim>\<open>c.polygon = q\<close>: the class defines no property and no
      \<^verbatim>\<open>__setattr__\<close>, so the assignment stores the value and does nothing else\<close>
  "assign_polygon q c = c\<lparr>polygon := q\<rparr>"

definition truthy :: "string option \<Rightarrow> bool" where
  \<comment> \<open>the truth value of an attribute that is \<^verbatim>\<open>None\<close> or a string\<close>
  "truthy x = (case x of None \<Rightarrow> False | Some s \<Rightarrow> s \<noteq> [])"

definition has_model ::
  "globals \<Rightarrow> ('pt, 'dpt, 'poly, 'trans) component \<Rightarrow> error + bool" where
  \<comment> \<open>\<^verbatim>\<open>c.has_model()\<close>; \<^verbatim>\<open>self.component.lower()\<close> raises when the name is \<^verbatim>\<open>None\<close>\<close>
  "has_model env self =
     (if truthy (library self) \<and> truthy (component self) then
        Inr (py_replace (CHR ''/'') ''::'' (lower (the (library self))) @ ''::''
               @ lower (the (component self)) \<in> INTC_ELEMENTS env)
      else
        (case component self of
           None \<Rightarrow> Inl AttributeError
         | Some n \<Rightarrow>
             Inr (''design kits::'' @ lower (technology_name env) @ ''::'' @ lower n
                    \<in> INTC_ELEMENTS env)))"

definition index1 :: "'a list \<Rightarrow> error + 'a" where
  \<comment> \<open>\<^verbatim>\<open>xs[1]\<close>\<close>
  "index1 xs = (case xs of x # y # _ \<Rightarrow> Inr y | _ \<Rightarrow> Inl IndexError)"

definition params_token ::
  "('d, 'f) builtins \<Rightarrow> string \<Rightarrow> 'f pdict \<Rightarrow> error + 'f pdict" where
  \<comment> \<open>the body of the loop of \<^verbatim>\<open>params_dict\<close>, for the token \<open>s\<close>\<close>
  "params_token bi s dictb =
     (if s = [] then Inr dictb
      else
        (case index1 (py_split (CHR ''='') s) of
           Inl e \<Rightarrow> Inl e
         | Inr v \<Rightarrow>
             (let k = hd (py_split (CHR ''='') s)
              in if CHR ''.'' \<notin> set v \<and> CHR ''e'' \<notin> set (lower v) then
                   (case py_int bi v of
                      Inl e \<Rightarrow> Inl e
                    | Inr i \<Rightarrow> Inr (dict_set k (PInt i) dictb))
                 else if CHR ''['' \<in> set v then Inr (dict_set k (PStr v) dictb)
                 else
                   (case Decimal bi (py_replace (CHR ''n'') ''e-9''
                                       (py_replace (CHR ''u'') ''e-6'' v)) of
                      Inl e \<Rightarrow> Inl e
                    | Inr a \<Rightarrow>
                   (case Decimal bi ''1e6'' of
                      Inl e \<Rightarrow> Inl e
                    | Inr b \<Rightarrow>
                   (case decimal_mul bi a b of
                      Inl e \<Rightarrow> Inl e
                    | Inr p \<Rightarrow>
                   (case py_float bi p of
                      Inl e \<Rightarrow> Inl e
                    | Inr q \<Rightarrow> Inr (dict_set k (PFloat q) dictb))))))))"

fun params_loop :: "('d, 'f) builtins \<Rightarrow> string list \<Rightarrow> 'f pdict \<Rightarrow> error + 'f pdict" where
  "params_loop bi [] dictb = Inr dictb"
| "params_loop bi (s # dicta) dictb =
     (case params_token bi s dictb of
        Inl e \<Rightarrow> Inl e
      | Inr dictb' \<Rightarrow> params_loop bi dicta dictb')"

definition params_dict ::
  "('d, 'f) builtins \<Rightarrow> ('pt, 'dpt, 'poly, 'trans) component \<Rightarrow> error + 'f pdict" where
  \<comment> \<open>\<^verbatim>\<open>c.params_dict()\<close>\<close>
  "params_dict bi self =
     (if \<not> truthy (params self) then Inr []
      else params_loop bi (py_split (CHR '' '') (the (params self))) [])"

text \<open>
  \<^verbatim>\<open>display\<close> formats its text with the operator \<^verbatim>\<open>%\<close>. The model collects the twelve
  values formatted in a record and takes the formatting itself (the fixed format string
  and Python's \<^verbatim>\<open>str\<close> of each value) as the parameter \<open>fmt\<close>.
\<close>

type_synonym pin_row = "string option \<times> string \<times> int option"

record ('dpt, 'trans) report =
  r_basic_name :: "string option"
  r_component :: "string option"
  r_idx :: "int option"
  r_instance :: "nat option"
  r_trans :: "'trans option"
  r_Dcenter :: 'dpt
  r_npins :: nat
  r_optical :: "pin_row list"
  r_electrical :: "pin_row list"
  r_opticalio :: "pin_row list"
  r_has_model :: bool
  r_params :: "string option"

fun pin_rows ::
  "('pt, 'dpt, 'path, 'box, 'poly, 'trans) host \<Rightarrow> pin_types \<Rightarrow>
   ('pt, 'path, 'box, 'poly) pin list \<Rightarrow> error + pin_row list" where
  \<comment> \<open>\<^verbatim>\<open>[[p.pin_name, p.center.to_s(), p.net.idx] for p in c.pins if p.type == ty]\<close>;
      a Pin without \<^verbatim>\<open>center\<close> raises\<close>
  "pin_rows g ty [] = Inr []"
| "pin_rows g ty (p # ps) =
     (if pin_type p = Some ty then
        (case pin_center p of
           None \<Rightarrow> Inl AttributeError
         | Some c \<Rightarrow>
             (case pin_rows g ty ps of
                Inl e \<Rightarrow> Inl e
              | Inr rows \<Rightarrow> Inr ((pin_name p, to_s g c, net_idx (pin_net p)) # rows)))
      else pin_rows g ty ps)"

definition display ::
  "('pt, 'dpt, 'path, 'box, 'poly, 'trans) host \<Rightarrow> globals \<Rightarrow>
   (('dpt, 'trans) report \<Rightarrow> string) \<Rightarrow> ('pt, 'path, 'box, 'poly) pin heap \<Rightarrow>
   ('pt, 'dpt, 'poly, 'trans) component \<Rightarrow>
   error + (('pt, 'dpt, 'poly, 'trans) component \<times> string list \<times> string)" where
  \<comment> \<open>\<^verbatim>\<open>c.display()\<close>: the Component after the call, the lines printed and the
      value returned\<close>
  "display g env fmt h self =
     (let c = self\<lparr>npins := length (h (pins self))\<rparr>
      in case pin_rows g OPTICAL (h (pins c)) of
           Inl e \<Rightarrow> Inl e
         | Inr optical \<Rightarrow>
        (case pin_rows g ELECTRICAL (h (pins c)) of
           Inl e \<Rightarrow> Inl e
         | Inr electrical \<Rightarrow>
        (case pin_rows g OPTICALIO (h (pins c)) of
           Inl e \<Rightarrow> Inl e
         | Inr opticalio \<Rightarrow>
        (case has_model env c of
           Inl e \<Rightarrow> Inl e
         | Inr m \<Rightarrow>
             (let text = fmt \<lparr>r_basic_name = basic_name c, r_component = component c,
                              r_idx = idx c, r_instance = instance_c c, r_trans = trans_c c,
                              r_Dcenter = Dcenter c, r_npins = npins c,
                              r_optical = optical, r_electrical = electrical,
                              r_opticalio = opticalio, r_has_model = m,
                              r_params = params c\<rparr>
              in Inr (c, [text], text))))))"

subsection \<open>A host geometry on the integer grid\<close>

text \<open>
  One instance of the host operations, used to run the definitions on concrete
  layouts: points and vectors are pairs of integers (database units), a path and a
  polygon are their lists of points, a box is its lower left and upper right corner,
  and a transformation is a map of the points.
\<close>

type_synonym gpoint = "int \<times> int"

definition atan2_deg :: "real \<Rightarrow> real \<Rightarrow> real" where
  \<comment> \<open>\<^verbatim>\<open>atan2(y, x) / pi * 180\<close>\<close>
  "atan2_deg y x =
     (if 0 < x then arctan (y / x)
      else if x < 0 \<and> 0 \<le> y then arctan (y / x) + pi
      else if x < 0 then arctan (y / x) - pi
      else if 0 < y then pi / 2
      else if y < 0 then - (pi / 2)
      else 0) / pi * 180"

definition grid_bbox :: "gpoint list \<Rightarrow> gpoint \<times> gpoint" where
  "grid_bbox ps =
     (case ps of
        [] \<Rightarrow> ((0, 0), (0, 0))
      | p # qs \<Rightarrow>
          ((fold min (map fst qs) (fst p), fold min (map snd qs) (snd p)),
           (fold max (map fst qs) (fst p), fold max (map snd qs) (snd p))))"

definition grid_box_center :: "gpoint \<times> gpoint \<Rightarrow> gpoint" where
  "grid_box_center b =
     (fst (fst b) + (fst (snd b) - fst (fst b)) div 2,
      snd (fst b) + (snd (snd b) - snd (fst b)) div 2)"

function show_nat :: "nat \<Rightarrow> string" where
  "show_nat n =
     (if n < 10 then [char_of (48 + n)]
      else show_nat (n div 10) @ [char_of (48 + n mod 10)])"
  by pat_completeness auto
termination
  by (relation "measure (\<lambda>n. n)") auto

declare show_nat.simps [simp del]

definition show_int :: "int \<Rightarrow> string" where
  "show_int i = (if i < 0 then CHR ''-'' # show_nat (nat (- i)) else show_nat (nat i))"

definition grid ::
  "(gpoint, real \<times> real, gpoint list, gpoint \<times> gpoint, gpoint list, gpoint \<Rightarrow> gpoint) host" where
  \<comment> \<open>Modelled from the spec: the geometry collaborator of section 6 (points, vectors,
      paths, polygons and boxes with midpoint, bounding-box centre, directional angle and
      application of a transformation) and the helpers \<^verbatim>\<open>angle_vector\<close> and
      \<^verbatim>\<open>get_points\<close>, none of which is in \<^verbatim>\<open>core.py\<close>.\<close>
  "grid =
     \<lparr>get_points = (\<lambda>p. p),
      pt_add = (\<lambda>p q. (fst p + fst q, snd p + snd q)),
      pt_sub = (\<lambda>p q. (fst p - fst q, snd p - snd q)),
      pt_mul = (\<lambda>p f. (round (of_int (fst p) * f), round (of_int (snd p) * f))),
      angle_vector = (\<lambda>v. atan2_deg (of_int (snd v)) (of_int (fst v))),
      box_center = grid_box_center,
      bbox = grid_bbox,
      path_transformed = (\<lambda>p t. map t p),
      polygon_transformed = (\<lambda>q t. map t q),
      to_s = (\<lambda>p. show_int (fst p) @ '','' @ show_int (snd p)),
      to_dtype = (\<lambda>p d. (of_int (fst p) * d, of_int (snd p) * d))\<rparr>"

definition shift :: "gpoint \<Rightarrow> gpoint \<Rightarrow> gpoint" where
  \<comment> \<open>the displacement by the vector \<open>d\<close>\<close>
  "shift d p = (fst p + fst d, snd p + snd d)"

definition no_net :: net where
  "no_net = Net_init None None None"

definition demo_globals :: globals where
  \<comment> \<open>globals for the concrete runs: one registered model, technology
      \<^verbatim>\<open>EBeam\<close>, a database unit of 0.001\<close>
  "demo_globals =
     \<lparr>INTC_ELEMENTS = {''design kits::ebeam::ebeam_y_1550''},
      NET_DISCONNECTED = no_net,
      technology_name = ''EBeam'',
      dbu = 1 / 1000\<rparr>"

subsection \<open>The numeric built-ins of CPython\<close>

text \<open>
  One instance of the built-ins, used to run \<^verbatim>\<open>params_dict\<close> on concrete strings: those
  of CPython 3.11 on a 64-bit platform, with the default context of the \<^verbatim>\<open>decimal\<close>
  module (28 digits, exponents from -999999 to 999999, rounding half to even, the signal
  \<^verbatim>\<open>Overflow\<close> trapped). A Decimal is its sign, coefficient and exponent; a float is the
  rational number it stands for, a negative zero or an infinity.
\<close>

datatype decimal = Dec bool int int

datatype pyfloat = Finite rat | NegZero | PosInf | NegInf

definition is_space :: "char \<Rightarrow> bool" where
  \<comment> \<open>the characters below 256 that Unicode takes as whitespace\<close>
  "is_space c =
     (let n = (of_char c :: nat)
      in (9 \<le> n \<and> n \<le> 13) \<or> (28 \<le> n \<and> n \<le> 32) \<or> n = 133 \<or> n = 160)"

definition is_int_space :: "char \<Rightarrow> bool" where
  \<comment> \<open>the whitespace that \<^verbatim>\<open>int\<close> skips: not the separators 28 to 31\<close>
  "is_int_space c =
     (let n = (of_char c :: nat)
      in (9 \<le> n \<and> n \<le> 13) \<or> n = 32 \<or> n = 133 \<or> n = 160)"

definition strip_chars :: "(char \<Rightarrow> bool) \<Rightarrow> string \<Rightarrow> string" where
  "strip_chars sp s = rev (dropWhile sp (rev (dropWhile sp s)))"

fun py_digits :: "int \<Rightarrow> string \<Rightarrow> int option" where
  \<comment> \<open>the rest of a decimal literal after a digit: digits, with single underscores
      allowed between two digits\<close>
  "py_digits acc [] = Some acc"
| "py_digits acc (c # cs) =
     (if is_digit c then py_digits (acc * 10 + int (digit_val c)) cs
      else if c = CHR ''_'' then
        (case cs of
           [] \<Rightarrow> None
         | d # ds \<Rightarrow> if is_digit d then py_digits (acc * 10 + int (digit_val d)) ds else None)
      else None)"

definition py_nat :: "string \<Rightarrow> int option" where
  \<comment> \<open>a decimal literal of at most 4300 digits, the interpreter's limit\<close>
  "py_nat s =
     (case s of
        [] \<Rightarrow> None
      | c # cs \<Rightarrow>
          if is_digit c \<and> length (filter is_digit s) \<le> 4300
          then py_digits (int (digit_val c)) cs else None)"

definition cpython_int :: "string \<Rightarrow> error + int" where
  \<comment> \<open>\<^verbatim>\<open>int(s)\<close>: surrounding whitespace, an optional sign, a decimal literal\<close>
  "cpython_int s =
     (case strip_chars is_int_space s of
        [] \<Rightarrow> Inl ValueError
      | c # cs \<Rightarrow>
          (case (if c = CHR ''-'' then map_option (\<lambda>n. - n) (py_nat cs)
                 else if c = CHR ''+'' then py_nat cs
                 else py_nat (c # cs)) of
             None \<Rightarrow> Inl ValueError
           | Some i \<Rightarrow> Inr i))"

fun digits_int :: "int \<Rightarrow> string \<Rightarrow> int" where
  \<comment> \<open>the number that a string of digits denotes\<close>
  "digits_int acc [] = acc"
| "digits_int acc (c # cs) = digits_int (acc * 10 + int (digit_val c)) cs"

function ndigits :: "int \<Rightarrow> nat" where
  \<comment> \<open>the number of decimal digits\<close>
  "ndigits n = (if n < 10 then 1 else Suc (ndigits (n div 10)))"
  by pat_completeness auto
termination
  by (relation "measure (\<lambda>n. nat n)") auto

declare ndigits.simps [simp del]

function ilog2 :: "int \<Rightarrow> int" where
  \<comment> \<open>the binary logarithm, rounded down\<close>
  "ilog2 n = (if n < 2 then 0 else 1 + ilog2 (n div 2))"
  by pat_completeness auto
termination
  by (relation "measure (\<lambda>n. nat n)") auto

declare ilog2.simps [simp del]

definition div_half_even :: "int \<Rightarrow> int \<Rightarrow> int" where
  \<comment> \<open>the quotient \<open>a / b\<close> of a natural number and a positive one, rounded to the
      nearest integer, a tie to the even one\<close>
  "div_half_even a b =
     (let q = a div b; r = a mod b
      in if 2 * r < b then q
         else if b < 2 * r then q + 1
         else if even q then q else q + 1)"

definition py_exponent :: "string \<Rightarrow> int option" where
  \<comment> \<open>the exponent part of a Decimal literal, after the mantissa: nothing, or
      \<^verbatim>\<open>E\<close>, an optional sign and at least one digit, up to the end\<close>
  "py_exponent s =
     (case s of
        [] \<Rightarrow> Some 0
      | c # cs \<Rightarrow>
          if c = CHR ''e'' \<or> c = CHR ''E'' then
            (let neg = (case cs of [] \<Rightarrow> False | d # _ \<Rightarrow> d = CHR ''-'');
                 ds = (case cs of [] \<Rightarrow> []
                       | d # r \<Rightarrow> if d = CHR ''-'' \<or> d = CHR ''+'' then r else cs)
             in if ds \<noteq> [] \<and> list_all is_digit ds
                then Some (if neg then - digits_int 0 ds else digits_int 0 ds)
                else None)
          else None)"

definition MAX_EMAX :: int where "MAX_EMAX = 999999999999999999"
definition MIN_ETINY :: int where "MIN_ETINY = - 1999999999999999997"

definition cpython_Decimal :: "string \<Rightarrow> error + decimal" where
  \<comment> \<open>\<^verbatim>\<open>Decimal(s)\<close> for a finite number. Whitespace around the literal and underscores
      anywhere in it are dropped; the number is taken exactly, and refused when its
      exponent is beyond what the module represents. The literals of infinities and NaNs
      contain neither a dot nor an E, so \<^verbatim>\<open>params_dict\<close> never passes one.\<close>
  "cpython_Decimal s =
     (let t = filter (\<lambda>c. c \<noteq> CHR ''_'') (strip_chars is_space s);
          neg = (case t of [] \<Rightarrow> False | c # _ \<Rightarrow> c = CHR ''-'');
          u = (case t of [] \<Rightarrow> []
               | c # r \<Rightarrow> if c = CHR ''-'' \<or> c = CHR ''+'' then r else t);
          ip = takeWhile is_digit u;
          r1 = dropWhile is_digit u;
          fp = (case r1 of [] \<Rightarrow> []
                | c # r \<Rightarrow> if c = CHR ''.'' then takeWhile is_digit r else []);
          r2 = (case r1 of [] \<Rightarrow> []
                | c # r \<Rightarrow> if c = CHR ''.'' then dropWhile is_digit r else r1)
      in if ip = [] \<and> fp = [] then Inl InvalidOperation
         else (case py_exponent r2 of
                 None \<Rightarrow> Inl InvalidOperation
               | Some e \<Rightarrow>
                   (let n = digits_int 0 (ip @ fp);
                        ex = e - int (length fp)
                    in if MIN_ETINY \<le> ex \<and>
                          (if n = 0 then ex \<le> MAX_EMAX
                           else ex + int (ndigits n) - 1 \<le> MAX_EMAX)
                       then Inr (Dec neg n ex)
                       else Inl InvalidOperation)))"

definition ctx_prec :: nat where "ctx_prec = 28"
definition ctx_emax :: int where "ctx_emax = 999999"
definition ctx_emin :: int where "ctx_emin = - 999999"
definition ctx_etiny :: int where "ctx_etiny = - 1000026"

definition finalize :: "decimal \<Rightarrow> error + decimal" where
  \<comment> \<open>the exact result of an operation brought into the context: a zero has its
      exponent clamped; a number too large raises \<^verbatim>\<open>Overflow\<close>; a number below the
      smallest normal one is rounded at the smallest exponent (a shift past all its
      digits leaves zero); a coefficient of more than 28 digits is rounded to 28, and
      when that carries to a 29th digit the exponent is checked again\<close>
  "finalize d =
     (case d of Dec s c e \<Rightarrow>
        if c = 0 then
          Inr (Dec s 0 (if ctx_emax < e then ctx_emax
                        else if e < ctx_etiny then ctx_etiny else e))
        else
          (let adj = e + int (ndigits c) - 1
           in if ctx_emax < adj then Inl Overflow
              else if adj < ctx_emin then
                (if e < ctx_etiny then
                   (if int (ndigits c) + 1 < ctx_etiny - e then Inr (Dec s 0 ctx_etiny)
                    else Inr (Dec s (div_half_even c (10 ^ nat (ctx_etiny - e))) ctx_etiny))
                 else Inr (Dec s c e))
              else if ctx_prec < ndigits c then
                (let sh = ndigits c - ctx_prec;
                     c' = div_half_even c (10 ^ sh);
                     e' = e + int sh
                 in if c' = 10 ^ ctx_prec then
                      (if ctx_emax < e' + int ctx_prec then Inl Overflow
                       else Inr (Dec s (10 ^ (ctx_prec - 1)) (e' + 1)))
                    else Inr (Dec s c' e'))
              else Inr (Dec s c e)))"

definition cpython_mul :: "decimal \<Rightarrow> decimal \<Rightarrow> error + decimal" where
  \<comment> \<open>\<^verbatim>\<open>a * b\<close> of two finite Decimals\<close>
  "cpython_mul a b =
     (case a of Dec s1 c1 e1 \<Rightarrow>
        (case b of Dec s2 c2 e2 \<Rightarrow>
           finalize (Dec (s1 \<noteq> s2) (c1 * c2) (e1 + e2))))"

definition floor_log2 :: "int \<Rightarrow> int \<Rightarrow> int" where
  \<comment> \<open>the binary logarithm of \<open>p / q\<close>, rounded down, for positive \<open>p\<close> and \<open>q\<close>\<close>
  "floor_log2 p q =
     (let t = ilog2 p - ilog2 q
      in if q * 2 ^ nat t \<le> p * 2 ^ nat (- t) then t else t - 1)"

definition rat_pow2 :: "int \<Rightarrow> rat" where
  "rat_pow2 i = (if 0 \<le> i then 2 ^ nat i else 1 / 2 ^ nat (- i))"

definition cpython_float :: "decimal \<Rightarrow> error + pyfloat" where
  \<comment> \<open>\<^verbatim>\<open>float(d)\<close> of a finite Decimal: the nearest double, a tie to the even one; an
      infinity from 2^1024 on. The spacing of the doubles around \<open>p / q\<close> is
      2^(ex - 52). Numbers of more than 309 digits before the point are infinite and
      numbers below 10^-324 are zero without the computation.\<close>
  "cpython_float d =
     (case d of Dec s c e \<Rightarrow>
        (let zero = (if s then NegZero else Finite 0);
             inf = (if s then NegInf else PosInf);
             adj = e + int (ndigits c) - 1
         in if c = 0 \<or> adj < - 324 then Inr zero
            else if 308 < adj then Inr inf
            else
              (let p = c * 10 ^ nat e;
                   q = 10 ^ nat (- e);
                   ex = max (floor_log2 p q) (- 1022);
                   n = div_half_even (p * 2 ^ nat (52 - ex)) (q * 2 ^ nat (ex - 52));
                   r = of_int n * rat_pow2 (ex - 52)
               in if n = 0 then Inr zero
                  else if rat_pow2 1024 \<le> r then Inr inf
                  else Inr (Finite (if s then - r else r)))))"

definition cpython :: "(decimal, pyfloat) builtins" where
  "cpython =
     \<lparr>py_int = cpython_int, Decimal = cpython_Decimal, decimal_mul = cpython_mul,
      py_float = cpython_float\<rparr>"

subsection \<open>Concrete layouts\<close>

definition square :: "gpoint list" where
  "square = [(0, 0), (2, 0), (2, 2), (0, 2)]"

definition far_square :: "gpoint list" where
  "far_square = [(10, 0), (12, 0), (12, 2), (10, 2)]"

definition demo_args ::
  "string option \<Rightarrow> string option \<Rightarrow> string option \<Rightarrow>
   (gpoint list, gpoint \<Rightarrow> gpoint) component_args" where
  \<comment> \<open>\<^verbatim>\<open>Component(idx=0, library=lib, component=name, params=ps, polygon=square)\<close>\<close>
  "demo_args lib name ps =
     no_args\<lparr>arg_idx := Some 0, arg_component := name, arg_library := lib,
             arg_params := ps, arg_polygon := Some square\<rparr>"

definition demo_component ::
  "string option \<Rightarrow> string option \<Rightarrow> string option \<Rightarrow>
   (gpoint, real \<times> real, gpoint list, gpoint \<Rightarrow> gpoint) component" where
  \<comment> \<open>the Component that the call of \<open>demo_args\<close> constructs\<close>
  "demo_component lib name ps =
     \<lparr>idx = Some 0, component = name, instance_c = None, trans_c = None, library = lib,
      pins = default_pins, npins = 0, params = ps, polygon = Some square,
      DevRec_polygon = None, center = (1, 1), cell = None, basic_name = None,
      cellName = None, Dcenter = (1 / 1000, 1 / 1000)\<rparr>"

definition optical_pin :: "(gpoint, gpoint list, gpoint \<times> gpoint, gpoint list) pin" where
  \<comment> \<open>the Pin of \<^verbatim>\<open>Pin(path=[(0,0),(2,0)], _type=OPTICAL, pin_name='opt1')\<close>\<close>
  "optical_pin =
     \<lparr>pin_type = Some OPTICAL, pin_net = no_net, pin_name = Some ''opt1'',
      pin_component = None, pin_path = Some [(0, 0), (2, 0)], pin_polygon = None,
      pin_center = Some (1, 0), pin_rotation = 0, pin_box = Some None\<rparr>"

definition box_pin :: "(gpoint, gpoint list, gpoint \<times> gpoint, gpoint list) pin" where
  \<comment> \<open>the Pin of \<^verbatim>\<open>Pin(box=Box(0,0,2,2), _type=ELECTRICAL, pin_name='elec1')\<close>\<close>
  "box_pin =
     \<lparr>pin_type = Some ELECTRICAL, pin_net = no_net, pin_name = Some ''elec1'',
      pin_component = None, pin_path = None, pin_polygon = None,
      pin_center = Some (1, 1), pin_rotation = 0, pin_box = Some (Some ((0, 0), (2, 2)))\<rparr>"

definition demo_fmt :: "(real \<times> real, gpoint \<Rightarrow> gpoint) report \<Rightarrow> string" where
  \<comment> \<open>a formatting that shows two of the values of the report\<close>
  "demo_fmt r =
     ''number of pins: '' @ show_nat (r_npins r) @ ''; has compact model: ''
       @ (if r_has_model r then ''True'' else ''False'')"

subsection \<open>The rules as the specification words them\<close>

definition micrometres :: "('d, 'f) builtins \<Rightarrow> string \<Rightarrow> error + 'f" where
  \<comment> \<open>the decimal number that a text denotes, times 1e6, as a float\<close>
  "micrometres bi t =
     and_then (Decimal bi t) (\<lambda>a.
       and_then (Decimal bi ''1e6'') (\<lambda>b.
         and_then (decimal_mul bi a b) (py_float bi)))"

definition spec_value :: "('d, 'f) builtins \<Rightarrow> string \<Rightarrow> error + 'f pvalue" where
  \<comment> \<open>the value of a token: an integer when it has no dot and no \<^verbatim>\<open>e\<close> or \<^verbatim>\<open>E\<close>;
      else the literal text when it has a bracket; else the decimal number, after the
      unit suffixes are replaced, times 1e6\<close>
  "spec_value bi v =
     (if CHR ''.'' \<notin> set v \<and> CHR ''e'' \<notin> set v \<and> CHR ''E'' \<notin> set v then
        and_then (py_int bi v) (\<lambda>i. Inr (PInt i))
      else if CHR ''['' \<in> set v then Inr (PStr v)
      else
        and_then (micrometres bi (py_replace (CHR ''n'') ''e-9'' (py_replace (CHR ''u'') ''e-6'' v)))
          (\<lambda>x. Inr (PFloat x)))"

fun spec_tokens :: "('d, 'f) builtins \<Rightarrow> string list \<Rightarrow> 'f pdict \<Rightarrow> error + 'f pdict" where
  \<comment> \<open>token by token: empty tokens are skipped, \<^verbatim>\<open>key=value\<close> stores the value of
      \<^verbatim>\<open>value\<close> under \<^verbatim>\<open>key\<close>; a token without \<^verbatim>\<open>=\<close> has no value\<close>
  "spec_tokens bi [] d = Inr d"
| "spec_tokens bi (s # ss) d =
     (if s = [] then spec_tokens bi ss d
      else
        (case py_split (CHR ''='') s of
           k # v # _ \<Rightarrow>
             (case spec_value bi v of
                Inl e \<Rightarrow> Inl e
              | Inr x \<Rightarrow> spec_tokens bi ss (dict_set k x d))
         | _ \<Rightarrow> Inl IndexError))"

definition spec_params :: "('d, 'f) builtins \<Rightarrow> string option \<Rightarrow> error + 'f pdict" where
  "spec_params bi ps =
     (case ps of
        None \<Rightarrow> Inr []
      | Some s \<Rightarrow> if s = [] then Inr [] else spec_tokens bi (py_split (CHR '' '') s) [])"

definition model_key :: "globals \<Rightarrow> string option \<Rightarrow> string \<Rightarrow> string" where
  \<comment> \<open>the lookup key of a Component named \<open>n\<close>: the library, with \<^verbatim>\<open>/\<close> replaced by
      \<^verbatim>\<open>::\<close>, and the name, or the technology and the name after \<^verbatim>\<open>design kits\<close>;
      lower-cased\<close>
  "model_key env lib n =
     (if truthy lib \<and> n \<noteq> [] then lower (py_replace (CHR ''/'') ''::'' (the lib) @ ''::'' @ n)
      else ''design kits::'' @ lower (technology_name env @ ''::'' @ n))"

section \<open>Properties\<close>

subsection \<open>Auxiliary facts\<close>

lemma of_char_lower_char:
  "(of_char (lower_char c) :: nat) =
     (if (65 \<le> (of_char c :: nat) \<and> (of_char c :: nat) \<le> 90) \<or>
         (192 \<le> (of_char c :: nat) \<and> (of_char c :: nat) \<le> 222 \<and> (of_char c :: nat) \<noteq> 215)
      then of_char c + 32 else of_char c)"
  by (auto simp add: lower_char_def Let_def)

lemma char_eq_code: "c = d \<longleftrightarrow> (of_char c :: nat) = of_char d"
  by simp

lemma lower_char_e: "lower_char c = CHR ''e'' \<longleftrightarrow> c = CHR ''e'' \<or> c = CHR ''E''"
  unfolding char_eq_code [of _ "CHR ''e''"] char_eq_code [of _ "CHR ''E''"] of_char_lower_char
  by auto

lemma lower_char_slash: "lower_char c = CHR ''/'' \<longleftrightarrow> c = CHR ''/''"
  unfolding char_eq_code [of _ "CHR ''/''"] of_char_lower_char
  by auto

lemma lower_char_colon: "lower_char (CHR '':'') = CHR '':''"
  by (simp add: lower_char_def)

lemma lower_has_e:
  "CHR ''e'' \<in> set (lower v) \<longleftrightarrow> CHR ''e'' \<in> set v \<or> CHR ''E'' \<in> set v"
proof (induction v)
  case Nil
  show ?case by (simp add: lower_def)
next
  case (Cons c v)
  have "CHR ''e'' = lower_char c \<longleftrightarrow> CHR ''e'' = c \<or> CHR ''E'' = c"
    using lower_char_e [of c] by (simp only: eq_commute)
  with Cons.IH show ?case
    by (auto simp add: lower_def)
qed

lemma lower_append: "lower (a @ b) = lower a @ lower b"
  by (simp add: lower_def)

lemma lower_Cons: "lower (c # s) = lower_char c # lower s"
  by (simp add: lower_def)

lemma lower_replace_slash:
  "lower (py_replace (CHR ''/'') ''::'' s) = py_replace (CHR ''/'') ''::'' (lower s)"
proof (induction s)
  case Nil
  show ?case by (simp add: lower_def py_replace_def)
next
  case (Cons c s)
  have rest: "map lower_char (concat (map (\<lambda>c. if c = CHR ''/'' then ''::'' else [c]) s)) =
              concat (map (\<lambda>c. if c = CHR ''/'' then ''::'' else [c]) (map lower_char s))"
    using Cons.IH by (simp add: lower_def py_replace_def)
  show ?case
  proof (cases "c = CHR ''/''")
    case True
    then have "lower_char c = CHR ''/''" by (simp add: lower_char_slash)
    with True rest show ?thesis
      by (simp add: lower_def py_replace_def lower_char_colon)
  next
    case False
    then have "lower_char c \<noteq> CHR ''/''" by (simp add: lower_char_slash)
    with False rest show ?thesis
      by (simp add: lower_def py_replace_def)
  qed
qed

lemma grid_center_square: "box_center grid (bbox grid square) = (1, 1)"
  by (simp add: grid_def grid_bbox_def grid_box_center_def square_def)

lemma grid_center_far_square: "box_center grid (bbox grid far_square) = (11, 1)"
  by (simp add: grid_def grid_bbox_def grid_box_center_def far_square_def)

lemma demo_component_constructed:
  "Component_init grid demo_globals empty_heap (demo_args lib name ps) =
     Inr (demo_component lib name ps)"
  by (simp add: Component_init_def demo_args_def no_args_def demo_component_def
      grid_center_square empty_heap_def)
    (simp add: grid_def demo_globals_def)

lemma optical_pin_constructed:
  "Pin_init grid demo_globals (Some [(0, 0), (2, 0)]) (Some OPTICAL) None None None None
     (Some ''opt1'') = Inr (optical_pin, [])"
  by (simp add: Pin_init_def Pin_init_box_def optical_pin_def grid_def demo_globals_def
      atan2_deg_def)

lemma box_pin_constructed:
  "Pin_init grid demo_globals None (Some ELECTRICAL) (Some ((0, 0), (2, 2))) None None None
     (Some ''elec1'') = Inr (box_pin, [])"
  by (simp add: Pin_init_def Pin_init_box_def box_pin_def grid_def demo_globals_def
      grid_box_center_def)

subsection \<open>Pin\<close>

text \<open>
  C1. A Pin constructed from a path of exactly two points, with type OPTICAL and neither
  box nor polygon, has as center the midpoint \<^verbatim>\<open>(p0 + p1) * 0.5\<close> of the two points and
  as rotation the angle \<^verbatim>\<open>angle_vector(p1 - p0)\<close> of the vector from the first point to
  the second. The constructor prints nothing and raises nothing.
\<close>

theorem Pin_init_two_point_path:
  assumes "get_points g p = [p0, p1]"
  shows "Pin_init g env (Some p) (Some OPTICAL) None None own nt nm =
           Inr (\<lparr>pin_type = Some OPTICAL,
                 pin_net = (case nt of Some n \<Rightarrow> n | None \<Rightarrow> NET_DISCONNECTED env),
                 pin_name = nm, pin_component = own, pin_path = Some p,
                 pin_polygon = None,
                 pin_center = Some (pt_mul g (pt_add g p0 p1) (1 / 2)),
                 pin_rotation = angle_vector g (pt_sub g p1 p0),
                 pin_box = Some None\<rparr>, [])"
  using assms by (simp add: Pin_init_def Pin_init_box_def)

theorem Pin_init_two_point_path_witness:
  "get_points grid [(0, 0), (0, 4)] = [(0, 0), (0, 4)] \<and>
   Pin_init grid demo_globals (Some [(0, 0), (0, 4)]) (Some OPTICAL) None None None None
     (Some ''opt2'') =
     Inr (\<lparr>pin_type = Some OPTICAL, pin_net = no_net, pin_name = Some ''opt2'',
           pin_component = None, pin_path = Some [(0, 0), (0, 4)], pin_polygon = None,
           pin_center = Some (0, 2), pin_rotation = 90, pin_box = Some None\<rparr>, [])"
proof -
  have pts: "get_points grid [(0, 0), (0, 4)] = [(0, 0), (0, 4)]"
    by (simp add: grid_def)
  have mid: "pt_mul grid (pt_add grid (0, 0) (0, 4)) (1 / 2) = (0, 2)"
    by (simp add: grid_def)
  have ang: "angle_vector grid (pt_sub grid (0, 4) (0, 0)) = 90"
    by (simp add: grid_def atan2_deg_def)
  have net: "NET_DISCONNECTED demo_globals = no_net"
    by (simp add: demo_globals_def)
  show ?thesis
    using Pin_init_two_point_path [OF pts, of demo_globals None None "Some ''opt2''"]
    by (simp add: pts mid ang net)
qed

text \<open>
  C5. The specification asks that a path with other than two points be reported as an error.
  The constructor reports none: for the path of three points below it prints its
  message and returns a Pin with rotation 0.
\<close>

theorem Pin_init_invalid_path_counterexample:
  "Pin_init grid demo_globals (Some [(0, 0), (1, 0), (2, 0)]) (Some OPTICAL) None None None
     None (Some ''opt3'') =
     Inr (\<lparr>pin_type = Some OPTICAL, pin_net = no_net, pin_name = Some ''opt3'',
           pin_component = None, pin_path = Some [(0, 0), (1, 0), (2, 0)],
           pin_polygon = None, pin_center = None, pin_rotation = 0, pin_box = None\<rparr>,
          [invalid_pin_message])"
  by (simp add: Pin_init_def grid_def demo_globals_def)

text \<open>
  C5, as amended. Constructing a Pin from a path with other than exactly two points
  raises no error: the constructor prints the message "detected invalid Pin", sets the
  rotation to 0 and returns the Pin at once, so that its center and its box are never
  assigned, whatever box and polygon are given.
\<close>

theorem Pin_init_invalid_path:
  assumes "length (get_points g p) \<noteq> 2"
  shows "Pin_init g env (Some p) ty bx pg own nt nm =
           Inr (\<lparr>pin_type = ty,
                 pin_net = (case nt of Some n \<Rightarrow> n | None \<Rightarrow> NET_DISCONNECTED env),
                 pin_name = nm, pin_component = own, pin_path = Some p,
                 pin_polygon = pg, pin_center = None, pin_rotation = 0, pin_box = None\<rparr>,
                [invalid_pin_message])"
  using assms by (simp add: Pin_init_def)

theorem Pin_init_invalid_path_witness:
  "length (get_points grid [(5, 5)]) \<noteq> 2 \<and>
   Pin_init grid demo_globals (Some [(5, 5)]) (Some OPTICAL) (Some ((0, 0), (2, 2))) None None
     None None =
     Inr (\<lparr>pin_type = Some OPTICAL, pin_net = no_net, pin_name = None,
           pin_component = None, pin_path = Some [(5, 5)], pin_polygon = None,
           pin_center = None, pin_rotation = 0, pin_box = None\<rparr>,
          [invalid_pin_message])"
proof -
  have len: "length (get_points grid [(5, 5)]) \<noteq> 2"
    by (simp add: grid_def)
  have net: "NET_DISCONNECTED demo_globals = no_net"
    by (simp add: demo_globals_def)
  show ?thesis
    using Pin_init_invalid_path [OF len, of demo_globals "Some OPTICAL" "Some ((0, 0), (2, 2))"
        None None None None]
    by (simp add: len net)
qed

text \<open>
  C4. \<^verbatim>\<open>transform\<close> moves the path and the polygon of a Pin and leaves its box alone:
  the electrical Pin on the box from (0,0) to (2,2), displaced by (10,0), keeps its box
  and its center (1,1), where the displaced box has the centre (11,1).
\<close>

theorem transform_box_pin_unmoved:
  "Pin_init grid demo_globals None (Some ELECTRICAL) (Some ((0, 0), (2, 2))) None None None
     (Some ''elec1'') = Inr (box_pin, []) \<and>
   transform grid (shift (10, 0)) box_pin = Inr box_pin \<and>
   pin_box box_pin = Some (Some ((0, 0), (2, 2))) \<and>
   pin_center box_pin = Some (1, 1) \<and>
   box_center grid (shift (10, 0) (0, 0), shift (10, 0) (2, 2)) = (11, 1)"
proof -
  have "transform grid (shift (10, 0)) box_pin = Inr box_pin"
    by (simp add: transform_def transform_path_def transform_polygon_def box_pin_def)
  moreover have "box_center grid (shift (10, 0) (0, 0), shift (10, 0) (2, 2)) = (11, 1)"
    by (simp add: grid_def grid_box_center_def shift_def)
  moreover have "pin_box box_pin = Some (Some ((0, 0), (2, 2)))"
    and "pin_center box_pin = Some (1, 1)"
    by (simp_all add: box_pin_def)
  ultimately show ?thesis
    using box_pin_constructed by simp
qed

text \<open>
  C7. Let a Pin have a path and no polygon, and let \<open>t12\<close> act on that path as \<open>t1\<close>
  followed by \<open>t2\<close> (it is their composition). When the path keeps its two points
  under \<open>t1\<close> and under \<open>t12\<close>, the chained call \<^verbatim>\<open>pin.transform(t1).transform(t2)\<close> and
  the single call \<^verbatim>\<open>pin.transform(t12)\<close> both succeed and leave the same Pin, so the
  same center and rotation.
\<close>

theorem transform_composition:
  assumes path: "pin_path self = Some p"
    and poly: "pin_polygon self = None"
    and comp: "path_transformed g (path_transformed g p t1) t2 = path_transformed g p t12"
    and two1: "2 \<le> length (get_points g (path_transformed g p t1))"
    and two12: "2 \<le> length (get_points g (path_transformed g p t12))"
  shows "\<exists>s. and_then (transform g t1 self) (transform g t2) = Inr s \<and>
             transform g t12 self = Inr s \<and>
             pin_center s =
               Some (pt_mul g (pt_add g (get_points g (path_transformed g p t12) ! 0)
                                        (get_points g (path_transformed g p t12) ! 1)) (1 / 2)) \<and>
             pin_rotation s =
               angle_vector g (pt_sub g (get_points g (path_transformed g p t12) ! 1)
                                        (get_points g (path_transformed g p t12) ! 0))"
proof -
  let ?q = "path_transformed g p t12"
  let ?s = "self\<lparr>pin_path := Some ?q,
                  pin_center := Some (pt_mul g (pt_add g (get_points g ?q ! 0)
                                                        (get_points g ?q ! 1)) (1 / 2)),
                  pin_rotation := angle_vector g (pt_sub g (get_points g ?q ! 1)
                                                          (get_points g ?q ! 0))\<rparr>"
  have single: "transform g t12 self = Inr ?s"
    using path poly two12
    by (simp add: transform_def transform_path_def transform_polygon_def Let_def)
  let ?s1 = "self\<lparr>pin_path := Some (path_transformed g p t1),
                   pin_center := Some (pt_mul g (pt_add g (get_points g (path_transformed g p t1) ! 0)
                                      (get_points g (path_transformed g p t1) ! 1)) (1 / 2)),
                   pin_rotation := angle_vector g (pt_sub g (get_points g (path_transformed g p t1) ! 1)
                                      (get_points g (path_transformed g p t1) ! 0))\<rparr>"
  have first: "transform g t1 self = Inr ?s1"
    using path poly two1
    by (simp add: transform_def transform_path_def transform_polygon_def Let_def)
  have second: "transform g t2 ?s1 = Inr ?s"
    using poly two12
    by (simp add: transform_def transform_path_def transform_polygon_def comp Let_def)
  have "and_then (transform g t1 self) (transform g t2) = transform g t2 ?s1"
    by (simp only: first and_then_def sum.case)
  with second have chained: "and_then (transform g t1 self) (transform g t2) = Inr ?s"
    by simp
  show ?thesis
    using single chained by simp
qed

theorem transform_composition_witness:
  "pin_path optical_pin = Some [(0, 0), (2, 0)] \<and> pin_polygon optical_pin = None \<and>
   path_transformed grid (path_transformed grid [(0, 0), (2, 0)] (shift (1, 0))) (shift (0, 3)) =
     path_transformed grid [(0, 0), (2, 0)] (shift (1, 3)) \<and>
   2 \<le> length (get_points grid (path_transformed grid [(0, 0), (2, 0)] (shift (1, 0)))) \<and>
   2 \<le> length (get_points grid (path_transformed grid [(0, 0), (2, 0)] (shift (1, 3)))) \<and>
   (\<exists>s. and_then (transform grid (shift (1, 0)) optical_pin) (transform grid (shift (0, 3))) = Inr s \<and>
        transform grid (shift (1, 3)) optical_pin = Inr s \<and>
        pin_center s = Some (2, 3) \<and> pin_rotation s = 0)"
proof -
  have path: "pin_path optical_pin = Some [(0, 0), (2, 0)]"
    and poly: "pin_polygon optical_pin = None"
    by (simp_all add: optical_pin_def)
  have comp: "path_transformed grid (path_transformed grid [(0, 0), (2, 0)] (shift (1, 0)))
                (shift (0, 3)) = path_transformed grid [(0, 0), (2, 0)] (shift (1, 3))"
    by (simp add: grid_def shift_def)
  have two1: "2 \<le> length (get_points grid (path_transformed grid [(0, 0), (2, 0)] (shift (1, 0))))"
    by (simp add: grid_def)
  have two12: "2 \<le> length (get_points grid (path_transformed grid [(0, 0), (2, 0)] (shift (1, 3))))"
    by (simp add: grid_def)
  have pts: "get_points grid (path_transformed grid [(0, 0), (2, 0)] (shift (1, 3))) =
               [(1, 3), (3, 3)]"
    by (simp add: grid_def shift_def)
  have mid: "pt_mul grid (pt_add grid (1, 3) (3, 3)) (1 / 2) = (2, 3)"
    by (simp add: grid_def)
  have ang: "angle_vector grid (pt_sub grid (3, 3) (1, 3)) = 0"
    by (simp add: grid_def atan2_deg_def)
  show ?thesis
    using transform_composition [OF path poly comp two1 two12]
    by (simp add: path poly comp two1 two12 pts mid ang)
qed

subsection \<open>Component\<close>

text \<open>
  C3. The specification says that center follows the polygon field. It does not: the Component
  constructed on \<open>square\<close> has the center (1,1), and keeps it when \<open>far_square\<close>, whose
  bounding box has the centre (11,1), is assigned to its polygon field.
\<close>

theorem center_stale_counterexample:
  "Component_init grid demo_globals empty_heap (demo_args None None None) =
     Inr (demo_component None None None) \<and>
   polygon (assign_polygon (Some far_square) (demo_component None None None)) =
     Some far_square \<and>
   center (assign_polygon (Some far_square) (demo_component None None None)) = (1, 1) \<and>
   box_center grid (bbox grid far_square) = (11, 1)"
  using demo_component_constructed [of None None None] grid_center_far_square
  by (simp add: assign_polygon_def demo_component_def)

text \<open>
  C3, as amended. When the constructor returns, center equals
  \<^verbatim>\<open>polygon.bbox().center()\<close> of the polygon given. The center is computed there once:
  an assignment to the polygon field afterwards leaves it as it is.
\<close>

theorem center_at_construction:
  assumes "Component_init g env h a = Inr c"
  shows "(\<exists>q. arg_polygon a = Some q \<and> polygon c = Some q \<and>
              center c = box_center g (bbox g q)) \<and>
         center (assign_polygon q' c) = center c"
  using assms
  by (auto simp add: Component_init_def assign_polygon_def split: option.splits)

theorem center_at_construction_witness:
  "Component_init grid demo_globals empty_heap (demo_args None None None) =
     Inr (demo_component None None None) \<and>
   polygon (demo_component None None None) = Some square \<and>
   center (demo_component None None None) = box_center grid (bbox grid square) \<and>
   center (assign_polygon (Some far_square) (demo_component None None None)) =
     center (demo_component None None None)"
proof -
  have made: "Component_init grid demo_globals empty_heap (demo_args None None None) =
                Inr (demo_component None None None)"
    by (rule demo_component_constructed)
  have arg: "arg_polygon (demo_args None None None) = Some square"
    by (simp add: demo_args_def no_args_def)
  show ?thesis
    using center_at_construction [OF made, of "Some far_square"] made arg
    by simp
qed

text \<open>
  C10. Two Components constructed without a \<^verbatim>\<open>pins\<close> argument hold the same list, the
  default of the signature: a Pin appended to the pins of the first is in the pins of
  the second.
\<close>

theorem default_pins_shared:
  "Component_init grid demo_globals empty_heap (demo_args None (Some ''a'') None) =
     Inr (demo_component None (Some ''a'') None) \<and>
   Component_init grid demo_globals empty_heap (demo_args None (Some ''b'') None) =
     Inr (demo_component None (Some ''b'') None) \<and>
   pins (demo_component None (Some ''a'') None) = pins (demo_component None (Some ''b'') None) \<and>
   empty_heap (pins (demo_component None (Some ''b'') None)) = ([] :: (gpoint, gpoint list, gpoint \<times> gpoint, gpoint list) pin list) \<and>
   list_append (pins (demo_component None (Some ''a'') None)) optical_pin empty_heap
     (pins (demo_component None (Some ''b'') None)) = [optical_pin]"
  using demo_component_constructed [of None "Some ''a''" None]
    demo_component_constructed [of None "Some ''b''" None]
  by (simp add: demo_component_def list_append_def empty_heap_def)

text \<open>
  C6. The statement of the specification fails in two places. A Component without a name (the default of the
  constructor) makes \<^verbatim>\<open>has_model\<close> raise; and a Component with a library and an empty
  name is looked up under the technology and not under the library, so that a registry
  holding the library key \<^verbatim>\<open>lib::\<close> gives false.
\<close>

theorem has_model_counterexample:
  "has_model demo_globals (demo_component None None None) = Inl AttributeError \<and>
   has_model (demo_globals\<lparr>INTC_ELEMENTS := {''lib::''}\<rparr>)
     (demo_component (Some ''Lib'') (Some []) None) = Inr False"
  by (simp add: has_model_def truthy_def demo_component_def demo_globals_def lower_def)

text \<open>
  C6, as amended. For a Component that has a name, \<^verbatim>\<open>has_model\<close> raises nothing and
  returns whether the key is in the registry. The key is the library with \<^verbatim>\<open>/\<close>
  replaced by \<^verbatim>\<open>::\<close>, then \<^verbatim>\<open>::\<close> and the name, all lower-cased, when the library
  and the name are both non-empty; otherwise it is \<^verbatim>\<open>design kits::\<close>, the technology
  name, \<^verbatim>\<open>::\<close> and the name, lower-cased. The function assigns nothing.
\<close>

theorem has_model_key:
  assumes "component c = Some n"
  shows "has_model env c = Inr (model_key env (library c) n \<in> INTC_ELEMENTS env)"
proof (cases "truthy (library c) \<and> n \<noteq> []")
  case True
  with assms show ?thesis
    by (simp add: has_model_def model_key_def truthy_def lower_append lower_replace_slash
        lower_Cons lower_char_colon)
next
  case False
  with assms show ?thesis
    by (auto simp add: has_model_def model_key_def truthy_def lower_append
        lower_Cons lower_char_colon)
qed

theorem has_model_key_witness:
  "component (demo_component None (Some ''ebeam_y_1550'') None) = Some ''ebeam_y_1550'' \<and>
   has_model demo_globals (demo_component None (Some ''ebeam_y_1550'') None) = Inr True \<and>
   component (demo_component (Some ''Design kits/EBeam'') (Some ''Ebeam_Y_1550'') None) =
     Some ''Ebeam_Y_1550'' \<and>
   has_model demo_globals (demo_component (Some ''Design kits/EBeam'') (Some ''Ebeam_Y_1550'') None) =
     Inr True \<and>
   component (demo_component (Some ''lib'') (Some ''wg'') None) = Some ''wg'' \<and>
   has_model demo_globals (demo_component (Some ''lib'') (Some ''wg'') None) = Inr False"
proof -
  have n1: "component (demo_component None (Some ''ebeam_y_1550'') None) = Some ''ebeam_y_1550''"
    and n2: "component (demo_component (Some ''Design kits/EBeam'') (Some ''Ebeam_Y_1550'') None) =
               Some ''Ebeam_Y_1550''"
    and n3: "component (demo_component (Some ''lib'') (Some ''wg'') None) = Some ''wg''"
    by (simp_all add: demo_component_def)
  have k1: "model_key demo_globals (library (demo_component None (Some ''ebeam_y_1550'') None))
              ''ebeam_y_1550'' = ''design kits::ebeam::ebeam_y_1550''"
    by code_simp
  have k2: "model_key demo_globals
              (library (demo_component (Some ''Design kits/EBeam'') (Some ''Ebeam_Y_1550'') None))
              ''Ebeam_Y_1550'' = ''design kits::ebeam::ebeam_y_1550''"
    by code_simp
  have k3: "model_key demo_globals (library (demo_component (Some ''lib'') (Some ''wg'') None))
              ''wg'' = ''lib::wg''"
    by code_simp
  have reg: "INTC_ELEMENTS demo_globals = {''design kits::ebeam::ebeam_y_1550''}"
    by (simp add: demo_globals_def)
  show ?thesis
    using has_model_key [OF n1, of demo_globals] has_model_key [OF n2, of demo_globals]
      has_model_key [OF n3, of demo_globals]
    by (simp add: n1 n2 n3 k1 k2 k3 reg)
qed

lemma params_token_spec:
  assumes "s \<noteq> []" and "py_split (CHR ''='') s = k # v # rest"
  shows "params_token bi s d =
           (case spec_value bi v of Inl e \<Rightarrow> Inl e | Inr x \<Rightarrow> Inr (dict_set k x d))"
  using assms
  by (simp add: params_token_def index1_def spec_value_def micrometres_def and_then_def
      lower_has_e split: sum.splits)

lemma params_token_no_value:
  assumes "s \<noteq> []" and "py_split (CHR ''='') s = [k]"
  shows "params_token bi s d = Inl IndexError"
  using assms by (simp add: params_token_def index1_def)

lemma py_split_not_Nil: "py_split sep s \<noteq> []"
  by (induction s) (simp_all split: list.splits)

lemma params_loop_spec: "params_loop bi ss d = spec_tokens bi ss d"
proof (induction ss arbitrary: d)
  case Nil
  show ?case by simp
next
  case (Cons s ss)
  show ?case
  proof (cases "s = []")
    case True
    then show ?thesis
      using Cons.IH by (simp add: params_token_def)
  next
    case False
    show ?thesis
    proof (cases "py_split (CHR ''='') s")
      case Nil
      then show ?thesis using py_split_not_Nil by blast
    next
      case (Cons k ws)
      note outer = this
      show ?thesis
      proof (cases ws)
        case Nil
        with outer False show ?thesis
          by (simp add: params_token_no_value)
      next
        case (Cons v rest)
        with outer have sp: "py_split (CHR ''='') s = k # v # rest" by simp
        show ?thesis
          using False sp Cons.IH
          by (simp add: params_token_spec [OF False sp] split: sum.splits)
      qed
    qed
  qed
qed

lemma params_dict_spec: "params_dict bi c = spec_params bi (params c)"
  by (simp add: params_dict_def spec_params_def truthy_def params_loop_spec
      split: option.splits)

text \<open>
  C2. The rule of the specification sends a value with neither a dot nor an \<^verbatim>\<open>e\<close> to the
  integer parser before it looks for a bracket, and so does the code: on the example
  of the specification the token \<^verbatim>\<open>c=[1,2,3]\<close> reaches \<^verbatim>\<open>int('[1,2,3]')\<close>, and
  \<^verbatim>\<open>params_dict\<close> raises \<^verbatim>\<open>ValueError\<close> where a mapping is promised.
\<close>

theorem params_dict_example_counterexample:
  "Component_init grid demo_globals empty_heap
     (demo_args None None (Some ''a=5 b=1.5u c=[1,2,3]'')) =
     Inr (demo_component None None (Some ''a=5 b=1.5u c=[1,2,3]'')) \<and>
   py_int cpython ''[1,2,3]'' = Inl ValueError \<and>
   params_dict cpython (demo_component None None (Some ''a=5 b=1.5u c=[1,2,3]'')) =
     Inl ValueError"
proof -
  have "py_int cpython ''[1,2,3]'' = Inl ValueError"
    by code_simp
  moreover have "params_dict cpython (demo_component None None (Some ''a=5 b=1.5u c=[1,2,3]'')) =
      Inl ValueError"
    by code_simp
  ultimately show ?thesis
    using demo_component_constructed [of None None "Some ''a=5 b=1.5u c=[1,2,3]''"] by simp
qed

text \<open>
  C2, as amended. \<^verbatim>\<open>params_dict\<close> returns the empty mapping for params that are unset
  or empty. Otherwise it goes through the space-separated tokens, skips the empty ones and
  for \<^verbatim>\<open>key=value\<close> stores under \<^verbatim>\<open>key\<close>: the integer \<^verbatim>\<open>int(value)\<close> when the value has
  no dot and no \<^verbatim>\<open>e\<close> or \<^verbatim>\<open>E\<close>; otherwise the text of the value when it has a
  bracket; otherwise the float of the product of \<^verbatim>\<open>Decimal\<close> of the value, with \<^verbatim>\<open>u\<close>
  replaced by \<^verbatim>\<open>e-6\<close> and \<^verbatim>\<open>n\<close> by \<^verbatim>\<open>e-9\<close>, and \<^verbatim>\<open>Decimal('1e6')\<close>. An exception of
  one of these calls, or of a token without \<^verbatim>\<open>=\<close>, is the outcome of \<^verbatim>\<open>params_dict\<close>.
  This holds whatever the built-ins compute. In particular, where \<^verbatim>\<open>int('5')\<close> is 5,
  params equal to \<^verbatim>\<open>a=5 b=1.5u c=[1.5,2,3]\<close> give the mapping of a to 5, of b to
  \<^verbatim>\<open>float(Decimal('1.5e-6') * Decimal('1e6'))\<close>, which is 1.5, and of c to the text
  \<^verbatim>\<open>[1.5,2,3]\<close>.
\<close>

theorem params_dict_rule:
  assumes five: "py_int bi ''5'' = Inr 5"
    and small: "Decimal bi ''1.5e-6'' = Inr a"
    and million: "Decimal bi ''1e6'' = Inr b"
    and product: "decimal_mul bi a b = Inr p"
    and float: "py_float bi p = Inr x"
    and example: "params c' = Some ''a=5 b=1.5u c=[1.5,2,3]''"
  shows "params_dict bi c = spec_params bi (params c) \<and>
         params_dict bi c' =
           Inr [(''a'', PInt 5), (''b'', PFloat x), (''c'', PStr ''[1.5,2,3]'')]"
proof -
  have split: "py_split (CHR '' '') ''a=5 b=1.5u c=[1.5,2,3]'' =
                 [''a=5'', ''b=1.5u'', ''c=[1.5,2,3]'']"
    by simp
  have va: "spec_value bi ''5'' = Inr (PInt 5)"
    by (simp add: spec_value_def and_then_def five)
  have vb: "spec_value bi ''1.5u'' = Inr (PFloat x)"
    by (simp add: spec_value_def micrometres_def and_then_def py_replace_def
        small million product float)
  have vc: "spec_value bi ''[1.5,2,3]'' = Inr (PStr ''[1.5,2,3]'')"
    by (simp add: spec_value_def)
  have "spec_params bi (params c') =
          Inr [(''a'', PInt 5), (''b'', PFloat x), (''c'', PStr ''[1.5,2,3]'')]"
    by (simp add: example spec_params_def split va vb vc)
  then show ?thesis
    by (simp add: params_dict_spec)
qed

theorem params_dict_rule_witness:
  "py_int cpython ''5'' = Inr 5 \<and>
   Decimal cpython ''1.5e-6'' = Inr (Dec False 15 (- 7)) \<and>
   Decimal cpython ''1e6'' = Inr (Dec False 1 6) \<and>
   decimal_mul cpython (Dec False 15 (- 7)) (Dec False 1 6) = Inr (Dec False 15 (- 1)) \<and>
   py_float cpython (Dec False 15 (- 1)) = Inr (Finite (3 / 2)) \<and>
   params (demo_component None None (Some ''a=5 b=1.5u c=[1.5,2,3]'')) =
     Some ''a=5 b=1.5u c=[1.5,2,3]'' \<and>
   params_dict cpython (demo_component None None (Some ''a=5 b=1.5u c=[1.5,2,3]'')) =
     Inr [(''a'', PInt 5), (''b'', PFloat (Finite (3 / 2))), (''c'', PStr ''[1.5,2,3]'')]"
proof -
  have five: "py_int cpython ''5'' = Inr 5"
    by code_simp
  have small: "Decimal cpython ''1.5e-6'' = Inr (Dec False 15 (- 7))"
    by code_simp
  have million: "Decimal cpython ''1e6'' = Inr (Dec False 1 6)"
    by code_simp
  have product: "decimal_mul cpython (Dec False 15 (- 7)) (Dec False 1 6) = Inr (Dec False 15 (- 1))"
    by code_simp
  have float: "py_float cpython (Dec False 15 (- 1)) = Inr (Finite (3 / 2))"
    by code_simp
  have example: "params (demo_component None None (Some ''a=5 b=1.5u c=[1.5,2,3]'')) =
                   Some ''a=5 b=1.5u c=[1.5,2,3]''"
    by (simp add: demo_component_def)
  show ?thesis
    using params_dict_rule [OF five small million product float example, THEN conjunct2]
      five small million product float example
    by simp
qed

text \<open>
  C8. \<^verbatim>\<open>params_dict\<close> returns the empty mapping, and raises nothing, when the params of
  the Component are unset or the empty string; and its result is determined by the
  params: two Components with the same params get the same result.
\<close>

theorem params_dict_empty_deterministic:
  "(params c = None \<or> params c = Some [] \<longrightarrow> params_dict bi c = Inr []) \<and>
   (params c = params c' \<longrightarrow> params_dict bi c = params_dict bi c')"
  by (auto simp add: params_dict_def truthy_def)

theorem params_dict_empty_deterministic_witness:
  "params (demo_component None None None) = None \<and>
   params_dict cpython (demo_component None None None) = Inr [] \<and>
   params (demo_component None None (Some [])) = Some [] \<and>
   params_dict cpython (demo_component None None (Some [])) = Inr [] \<and>
   params (demo_component None (Some ''wg'') (Some ''a=5'')) =
     params (demo_component (Some ''lib'') (Some ''y'') (Some ''a=5'')) \<and>
   params_dict cpython (demo_component None (Some ''wg'') (Some ''a=5'')) =
     params_dict cpython (demo_component (Some ''lib'') (Some ''y'') (Some ''a=5''))"
proof -
  have p1: "params (demo_component None None None) = None"
    and p2: "params (demo_component None None (Some [])) = Some []"
    and p3: "params (demo_component None (Some ''wg'') (Some ''a=5'')) =
             params (demo_component (Some ''lib'') (Some ''y'') (Some ''a=5''))"
    by (simp_all add: demo_component_def)
  have e1: "params_dict cpython (demo_component None None None) = Inr []"
    using params_dict_empty_deterministic
      [of "demo_component None None None" cpython "demo_component None None None"] p1
    by simp
  have e2: "params_dict cpython (demo_component None None (Some [])) = Inr []"
    using params_dict_empty_deterministic
      [of "demo_component None None (Some [])" cpython "demo_component None None (Some [])"] p2
    by simp
  have e3: "params_dict cpython (demo_component None (Some ''wg'') (Some ''a=5'')) =
            params_dict cpython (demo_component (Some ''lib'') (Some ''y'') (Some ''a=5''))"
    using params_dict_empty_deterministic
      [of "demo_component None (Some ''wg'') (Some ''a=5'')" cpython
        "demo_component (Some ''lib'') (Some ''y'') (Some ''a=5'')"] p3
    by simp
  show ?thesis
    using p1 p2 p3 e1 e2 e3 by simp
qed

lemma show_int_1_0: "show_int 1 = ''1''" "show_int 0 = ''0''"
  by code_simp+

lemma optical_pin_row:
  "pin_rows grid OPTICAL [optical_pin] = Inr [(Some ''opt1'', ''1,0'', None)]"
  "pin_rows grid ELECTRICAL [optical_pin] = Inr []"
  "pin_rows grid OPTICALIO [optical_pin] = Inr []"
  by (simp_all add: optical_pin_def no_net_def Net_init_def grid_def show_int_1_0)

lemma has_model_npins: "has_model env (c\<lparr>npins := k\<rparr>) = has_model env c"
  by (simp add: has_model_def)

lemma demo_has_model:
  "has_model demo_globals (demo_component None (Some ''ebeam_y_1550'') None) = Inr True"
proof -
  have "lower ''EBeam'' = ''ebeam''" and "lower ''ebeam_y_1550'' = ''ebeam_y_1550''"
    by code_simp+
  then show ?thesis
    by (simp add: has_model_def truthy_def demo_component_def demo_globals_def)
qed

lemma display_returns:
  assumes "pin_rows g OPTICAL (h (pins c)) = Inr ro"
    and "pin_rows g ELECTRICAL (h (pins c)) = Inr re"
    and "pin_rows g OPTICALIO (h (pins c)) = Inr rio"
    and "has_model env c = Inr m"
  shows "display g env fmt h c =
           Inr (c\<lparr>npins := length (h (pins c))\<rparr>,
                [fmt \<lparr>r_basic_name = basic_name c, r_component = component c, r_idx = idx c,
                       r_instance = instance_c c, r_trans = trans_c c, r_Dcenter = Dcenter c,
                       r_npins = length (h (pins c)), r_optical = ro, r_electrical = re,
                       r_opticalio = rio, r_has_model = m, r_params = params c\<rparr>],
                fmt \<lparr>r_basic_name = basic_name c, r_component = component c, r_idx = idx c,
                      r_instance = instance_c c, r_trans = trans_c c, r_Dcenter = Dcenter c,
                      r_npins = length (h (pins c)), r_optical = ro, r_electrical = re,
                      r_opticalio = rio, r_has_model = m, r_params = params c\<rparr>)"
  using assms by (simp add: display_def Let_def has_model_npins)

text \<open>
  C9. \<^verbatim>\<open>display\<close> is not read-only. A Component constructed with the default pins has
  npins 0; once a Pin has been appended to its pins, \<^verbatim>\<open>display\<close> sets npins to 1.
\<close>

theorem display_writes_npins_counterexample:
  "Component_init grid demo_globals empty_heap (demo_args None (Some ''ebeam_y_1550'') None) =
     Inr (demo_component None (Some ''ebeam_y_1550'') None) \<and>
   npins (demo_component None (Some ''ebeam_y_1550'') None) = 0 \<and>
   display grid demo_globals demo_fmt
     (list_append (pins (demo_component None (Some ''ebeam_y_1550'') None)) optical_pin empty_heap)
     (demo_component None (Some ''ebeam_y_1550'') None) =
     Inr (demo_component None (Some ''ebeam_y_1550'') None\<lparr>npins := 1\<rparr>,
          [''number of pins: 1; has compact model: True''],
          ''number of pins: 1; has compact model: True'')"
proof -
  have heap: "list_append (pins (demo_component None (Some ''ebeam_y_1550'') None)) optical_pin
                empty_heap (pins (demo_component None (Some ''ebeam_y_1550'') None)) = [optical_pin]"
    by (simp add: list_append_def empty_heap_def)
  have one: "show_nat (Suc 0) = ''1''"
    by code_simp
  have r1: "pin_rows grid OPTICAL
              (list_append (pins (demo_component None (Some ''ebeam_y_1550'') None)) optical_pin
                 empty_heap (pins (demo_component None (Some ''ebeam_y_1550'') None))) =
              Inr [(Some ''opt1'', ''1,0'', None)]"
    and r2: "pin_rows grid ELECTRICAL
              (list_append (pins (demo_component None (Some ''ebeam_y_1550'') None)) optical_pin
                 empty_heap (pins (demo_component None (Some ''ebeam_y_1550'') None))) = Inr []"
    and r3: "pin_rows grid OPTICALIO
              (list_append (pins (demo_component None (Some ''ebeam_y_1550'') None)) optical_pin
                 empty_heap (pins (demo_component None (Some ''ebeam_y_1550'') None))) = Inr []"
    by (simp_all only: heap optical_pin_row)
  have "display grid demo_globals demo_fmt
     (list_append (pins (demo_component None (Some ''ebeam_y_1550'') None)) optical_pin empty_heap)
     (demo_component None (Some ''ebeam_y_1550'') None) =
     Inr (demo_component None (Some ''ebeam_y_1550'') None\<lparr>npins := 1\<rparr>,
          [''number of pins: 1; has compact model: True''],
          ''number of pins: 1; has compact model: True'')"
    using display_returns
        [of grid "list_append (pins (demo_component None (Some ''ebeam_y_1550'') None))
                    optical_pin empty_heap"
          "demo_component None (Some ''ebeam_y_1550'') None"
          "[(Some ''opt1'', ''1,0'', None)]" "[]" "[]" demo_globals True demo_fmt,
         OF r1 r2 r3 demo_has_model]
    by (simp add: heap demo_fmt_def one)
  moreover have "npins (demo_component None (Some ''ebeam_y_1550'') None) = 0"
    by (simp add: demo_component_def)
  ultimately show ?thesis
    using demo_component_constructed [of None "Some ''ebeam_y_1550''" None] by simp
qed

text \<open>
  C9, as amended. When \<^verbatim>\<open>display\<close> returns, it has changed no field of the Component
  but npins, which it has set to the length of the pins list (so that a Component whose
  npins is that length already is unchanged), and the string it returns is the one line
  it has printed: the format of the twelve values of the report, with the rows of the
  optical, electrical and optical IO pins and the answer of \<^verbatim>\<open>has_model\<close>. It assigns
  to no field of a Pin or a Net and leaves the lists as they are: the model of
  \<^verbatim>\<open>display\<close> reads the heap and returns none.
\<close>

theorem display_frame:
  assumes "display g env fmt h c = Inr (c', out, txt)"
  shows "c' = c\<lparr>npins := length (h (pins c))\<rparr> \<and> out = [txt] \<and>
         (npins c = length (h (pins c)) \<longrightarrow> c' = c) \<and>
         (\<exists>ro re rio m.
            pin_rows g OPTICAL (h (pins c)) = Inr ro \<and>
            pin_rows g ELECTRICAL (h (pins c)) = Inr re \<and>
            pin_rows g OPTICALIO (h (pins c)) = Inr rio \<and>
            has_model env c = Inr m \<and>
            txt = fmt \<lparr>r_basic_name = basic_name c, r_component = component c, r_idx = idx c,
                         r_instance = instance_c c, r_trans = trans_c c, r_Dcenter = Dcenter c,
                         r_npins = length (h (pins c)), r_optical = ro, r_electrical = re,
                         r_opticalio = rio, r_has_model = m, r_params = params c\<rparr>)"
proof -
  from assms have "c' = c\<lparr>npins := length (h (pins c))\<rparr>" and "out = [txt]"
    by (auto simp add: display_def Let_def split: sum.splits)
  moreover from assms have "\<exists>ro re rio m.
            pin_rows g OPTICAL (h (pins c)) = Inr ro \<and>
            pin_rows g ELECTRICAL (h (pins c)) = Inr re \<and>
            pin_rows g OPTICALIO (h (pins c)) = Inr rio \<and>
            has_model env c = Inr m \<and>
            txt = fmt \<lparr>r_basic_name = basic_name c, r_component = component c, r_idx = idx c,
                         r_instance = instance_c c, r_trans = trans_c c, r_Dcenter = Dcenter c,
                         r_npins = length (h (pins c)), r_optical = ro, r_electrical = re,
                         r_opticalio = rio, r_has_model = m, r_params = params c\<rparr>"
    by (auto simp add: display_def Let_def has_model_npins split: sum.splits)
  ultimately show ?thesis by auto
qed

theorem display_frame_witness:
  "display grid demo_globals demo_fmt empty_heap (demo_component None (Some ''ebeam_y_1550'') None) =
     Inr (demo_component None (Some ''ebeam_y_1550'') None,
          [''number of pins: 0; has compact model: True''],
          ''number of pins: 0; has compact model: True'') \<and>
   npins (demo_component None (Some ''ebeam_y_1550'') None) =
     length (empty_heap (pins (demo_component None (Some ''ebeam_y_1550'') None)) ::
               (gpoint, gpoint list, gpoint \<times> gpoint, gpoint list) pin list)"
proof -
  have zero: "show_nat 0 = ''0''"
    by code_simp
  have same: "demo_component None (Some ''ebeam_y_1550'') None\<lparr>npins := 0\<rparr> =
              demo_component None (Some ''ebeam_y_1550'') None"
    by (simp add: demo_component_def)
  have run: "display grid demo_globals demo_fmt empty_heap
               (demo_component None (Some ''ebeam_y_1550'') None) =
     Inr (demo_component None (Some ''ebeam_y_1550'') None,
          [''number of pins: 0; has compact model: True''],
          ''number of pins: 0; has compact model: True'')"
    using display_returns [of grid empty_heap "demo_component None (Some ''ebeam_y_1550'') None"
        "[]" "[]" "[]" demo_globals True demo_fmt, OF _ _ _ demo_has_model]
    by (simp add: empty_heap_def demo_fmt_def zero same)
  show ?thesis
    using display_frame [OF run] run
    by (simp add: empty_heap_def demo_component_def)
qed

end
